theory Spec2Isabelle
  imports Complex_Main
begin

section \<open>Strings of the source language\<close>

text \<open>
  The sources are TypeScript. A string of the source is a sequence of code units and
  \<open>length\<close> counts code units. The model uses \<^typ>\<open>string\<close>, whose characters
  are the code units 0 to 255 (Basic Latin and Latin-1 Supplement, where a code unit is a
  code point); strings with code units above 255 are outside the model.
\<close>

definition whitespace_chars :: "char list" where
  \<comment> \<open>White space and line terminators of the language below code unit 256: TAB, LF, VT, FF,
      CR, SPACE, NO-BREAK SPACE. Both \<open>String.prototype.trim\<close> and the class \<open>\s\<close> of a
      regular expression use this set.\<close>
  "whitespace_chars = [CHR 0x09, CHR 0x0A, CHR 0x0B, CHR 0x0C, CHR 0x0D, CHR 0x20, CHR 0xA0]"

definition is_whitespace :: "char \<Rightarrow> bool" where
  "is_whitespace c = (c \<in> set whitespace_chars)"

definition trim :: "string \<Rightarrow> string" where
  \<comment> \<open>\<open>s.trim()\<close>: white space removed from both ends.\<close>
  "trim s = rev (dropWhile is_whitespace (rev (dropWhile is_whitespace s)))"

definition upper_to_lower :: "(char \<times> char) list" where
  \<comment> \<open>The code points below 256 that have a lower-case mapping, each with its image:
      A to Z, and the Latin-1 capitals 0xC0 to 0xDE without the multiplication sign 0xD7.\<close>
  "upper_to_lower =
     zip ''ABCDEFGHIJKLMNOPQRSTUVWXYZ'' ''abcdefghijklmnopqrstuvwxyz'' @
     zip [CHR 0xC0, CHR 0xC1, CHR 0xC2, CHR 0xC3, CHR 0xC4, CHR 0xC5, CHR 0xC6, CHR 0xC7,
          CHR 0xC8, CHR 0xC9, CHR 0xCA, CHR 0xCB, CHR 0xCC, CHR 0xCD, CHR 0xCE, CHR 0xCF,
          CHR 0xD0, CHR 0xD1, CHR 0xD2, CHR 0xD3, CHR 0xD4, CHR 0xD5, CHR 0xD6,
          CHR 0xD8, CHR 0xD9, CHR 0xDA, CHR 0xDB, CHR 0xDC, CHR 0xDD, CHR 0xDE]
         [CHR 0xE0, CHR 0xE1, CHR 0xE2, CHR 0xE3, CHR 0xE4, CHR 0xE5, CHR 0xE6, CHR 0xE7,
          CHR 0xE8, CHR 0xE9, CHR 0xEA, CHR 0xEB, CHR 0xEC, CHR 0xED, CHR 0xEE, CHR 0xEF,
          CHR 0xF0, CHR 0xF1, CHR 0xF2, CHR 0xF3, CHR 0xF4, CHR 0xF5, CHR 0xF6,
          CHR 0xF8, CHR 0xF9, CHR 0xFA, CHR 0xFB, CHR 0xFC, CHR 0xFD, CHR 0xFE]"

definition lower_char :: "char \<Rightarrow> char" where
  "lower_char c = (case map_of upper_to_lower c of Some l \<Rightarrow> l | None \<Rightarrow> c)"

definition toLowerCase :: "string \<Rightarrow> string" where
  \<comment> \<open>\<open>s.toLowerCase()\<close>\<close>
  "toLowerCase s = map lower_char s"

fun starts_with :: "string \<Rightarrow> string \<Rightarrow> bool" where
  "starts_with s [] = True"
| "starts_with [] (p # ps) = False"
| "starts_with (c # cs) (p # ps) = (c = p \<and> starts_with cs ps)"

fun str_includes :: "string \<Rightarrow> string \<Rightarrow> bool" where
  \<comment> \<open>\<open>s.includes(p)\<close>: \<open>p\<close> occurs in \<open>s\<close> as a contiguous substring.\<close>
  "str_includes [] p = (p = [])"
| "str_includes (c # cs) p = (starts_with (c # cs) p \<or> str_includes cs p)"

definition digit_char :: "nat \<Rightarrow> char" where
  "digit_char d = ''0123456789'' ! (d mod 10)"

fun decimal :: "nat \<Rightarrow> string" where
  \<comment> \<open>The decimal numeral a template literal substitutes for a non-negative integer.\<close>
  "decimal n = (if n < 10 then [digit_char n] else decimal (n div 10) @ [digit_char n])"

declare decimal.simps [simp del]

section \<open>Validation helpers\<close>

text \<open>The object \<open>validation\<close>: its three limits, its pattern and the validators.\<close>

record validation_result =
  valid :: bool
  error :: "string option"

definition maxTagLength :: nat where "maxTagLength = 50"
definition maxProfileNameLength :: nat where "maxProfileNameLength = 100"
definition maxClaimLength :: nat where "maxClaimLength = 5000"

definition in_range :: "char \<Rightarrow> char \<Rightarrow> char \<Rightarrow> bool" where
  \<comment> \<open>A range \<open>lo-hi\<close> of a character class: the code units from \<open>lo\<close> to \<open>hi\<close>.\<close>
  "in_range lo hi c = ((of_char lo :: nat) \<le> of_char c \<and> (of_char c :: nat) \<le> of_char hi)"

definition tag_class :: "char \<Rightarrow> bool" where
  \<comment> \<open>The character class \<open>[a-zA-Z0-9\s\-_]\<close> of \<open>tagPattern\<close>.\<close>
  "tag_class c =
     (in_range CHR ''a'' CHR ''z'' c \<or> in_range CHR ''A'' CHR ''Z'' c \<or>
      in_range CHR ''0'' CHR ''9'' c \<or> is_whitespace c \<or> c = CHR ''-'' \<or> c = CHR ''_'')"

fun match_plus :: "(char \<Rightarrow> bool) \<Rightarrow> string \<Rightarrow> bool" where
  \<comment> \<open>A match of \<open>^[class]+$\<close> on the whole input: one character of the class, then either
      the end of the input or a further match.\<close>
  "match_plus cls [] = False"
| "match_plus cls (c # cs) = (cls c \<and> (cs = [] \<or> match_plus cls cs))"

definition tagPattern_test :: "string \<Rightarrow> bool" where
  \<comment> \<open>\<open>tagPattern.test(s)\<close> for \<open>/^[a-zA-Z0-9\s\-_]+$/\<close> (no flags, so no state between calls).\<close>
  "tagPattern_test s = match_plus tag_class s"

definition validateTag :: "string \<Rightarrow> validation_result" where
  "validateTag tag =
     (let trimmed = trim tag in
      if trimmed = [] then
        \<lparr>valid = False, error = Some ''Tag cannot be empty''\<rparr>
      else if length trimmed > maxTagLength then
        \<lparr>valid = False,
         error = Some (''Tag must be '' @ decimal maxTagLength @ '' characters or less'')\<rparr>
      else if \<not> tagPattern_test trimmed then
        \<lparr>valid = False,
         error = Some ''Tags can only contain letters, numbers, spaces, hyphens, and underscores''\<rparr>
      else \<lparr>valid = True, error = None\<rparr>)"

definition validateProfileName :: "string \<Rightarrow> validation_result" where
  "validateProfileName name =
     (if length name > maxProfileNameLength then
        \<lparr>valid = False,
         error = Some (''Name must be '' @ decimal maxProfileNameLength @ '' characters or less'')\<rparr>
      else \<lparr>valid = True, error = None\<rparr>)"

definition validateClaim :: "string \<Rightarrow> validation_result" where
  "validateClaim claim =
     (let trimmed = trim claim in
      if trimmed = [] then
        \<lparr>valid = False, error = Some ''Please enter a news claim to verify''\<rparr>
      else if length trimmed > maxClaimLength then
        \<lparr>valid = False,
         error = Some (''Claim must be '' @ decimal maxClaimLength @ '' characters or less'')\<rparr>
      else \<lparr>valid = True, error = None\<rparr>)"

subsection \<open>The tag alphabet in the words of the specification\<close>

definition is_letter :: "char \<Rightarrow> bool" where
  "is_letter c = (c \<in> set ''abcdefghijklmnopqrstuvwxyzABCDEFGHIJKLMNOPQRSTUVWXYZ'')"

definition is_digit :: "char \<Rightarrow> bool" where
  "is_digit c = (c \<in> set ''0123456789'')"

definition tag_characters_only :: "string \<Rightarrow> bool" where
  \<comment> \<open>Letters, digits, white space, hyphens and underscores only.\<close>
  "tag_characters_only s =
     list_all (\<lambda>c. is_letter c \<or> is_digit c \<or> is_whitespace c \<or> c = CHR ''-'' \<or> c = CHR ''_'') s"

section \<open>Error normaliser\<close>

text \<open>
  \<open>getUserFriendlyError(error: any)\<close> reads three fields of its argument. The argument of the
  model is \<open>None\<close> for an absent or null error and otherwise the three fields, each an optional
  string (\<open>None\<close> for a field that is absent, undefined or null).
\<close>

record error_input =
  code :: "string option"
  error_code :: "string option"
  message :: "string option"

text \<open>
  The two tables are object literals, so \<open>table[key]\<close> finds the table's own entries and, for a
  key that is not an own entry, the members every object inherits from \<open>Object.prototype\<close>.
  Such a member is a function or an object, never a string, and it is truthy.
\<close>

datatype js_value = Str string | Inherited string

definition Object_prototype_names :: "string list" where
  \<comment> \<open>The property names of \<open>Object.prototype\<close> in the language standard.\<close>
  "Object_prototype_names =
     [''constructor'', ''hasOwnProperty'', ''isPrototypeOf'', ''propertyIsEnumerable'',
      ''toLocaleString'', ''toString'', ''valueOf'', ''__proto__'',
      ''__defineGetter__'', ''__defineSetter__'', ''__lookupGetter__'', ''__lookupSetter__'']"

definition authErrorMap :: "(string \<times> string) list" where
  "authErrorMap =
     [(''invalid_credentials'', ''Invalid email or password''),
      (''invalid_login_credentials'', ''Invalid email or password''),
      (''email_not_confirmed'', ''Please verify your email address''),
      (''user_already_exists'', ''An account with this email already exists''),
      (''email_already_exists'', ''An account with this email already exists''),
      (''weak_password'', ''Password must be stronger''),
      (''user_not_found'', ''No account found with this email''),
      (''over_request_rate_limit'', ''Too many attempts. Please try again later''),
      (''signup_disabled'', ''Sign up is currently disabled''),
      (''invalid_email'', ''Please enter a valid email address''),
      (''email_address_invalid'', ''Please enter a valid email address'')]"

definition databaseErrorMap :: "(string \<times> string) list" where
  "databaseErrorMap =
     [(''23505'', ''This record already exists''),
      (''23503'', ''This operation cannot be completed due to related data''),
      (''23514'', ''The provided data does not meet the requirements''),
      (''42501'', ''You do not have permission to perform this action''),
      (''PGRST116'', ''Record not found'')]"

definition table_get :: "(string \<times> string) list \<Rightarrow> string \<Rightarrow> js_value option" where
  \<comment> \<open>\<open>table[key]\<close>; \<open>None\<close> is \<open>undefined\<close>.\<close>
  "table_get table key =
     (case map_of table key of
        Some v \<Rightarrow> Some (Str v)
      | None \<Rightarrow> if key \<in> set Object_prototype_names then Some (Inherited key) else None)"

fun truthy_value :: "js_value option \<Rightarrow> bool" where
  "truthy_value None = False"
| "truthy_value (Some (Str s)) = (s \<noteq> [])"
| "truthy_value (Some (Inherited k)) = True"

definition or_else :: "string option \<Rightarrow> string option \<Rightarrow> string option" where
  \<comment> \<open>\<open>a || b\<close> on optional strings: \<open>a\<close> when it is truthy (present and not empty), else \<open>b\<close>.\<close>
  "or_else a b = (case a of Some s \<Rightarrow> if s \<noteq> [] then a else b | None \<Rightarrow> b)"

definition or_empty :: "string option \<Rightarrow> string" where
  \<comment> \<open>\<open>a || ''\<close>\<close>
  "or_empty a = (case a of Some s \<Rightarrow> s | None \<Rightarrow> [])"

definition return_if_truthy :: "js_value option \<Rightarrow> js_value \<Rightarrow> js_value" where
  \<comment> \<open>\<open>if (x) return x;\<close> followed by the rest of the function body.\<close>
  "return_if_truthy x rest =
     (case x of Some v \<Rightarrow> if truthy_value x then v else rest | None \<Rightarrow> rest)"

definition match_message :: "string \<Rightarrow> js_value" where
  \<comment> \<open>The message patterns and the final fallback (lines 48 to 72).\<close>
  "match_message errorMessage =
     (if str_includes (toLowerCase errorMessage) ''invalid login credentials'' then
        Str ''Invalid email or password''
      else if str_includes (toLowerCase errorMessage) ''email not confirmed'' then
        Str ''Please verify your email address''
      else if str_includes (toLowerCase errorMessage) ''already registered'' \<or>
              str_includes (toLowerCase errorMessage) ''already exists'' then
        Str ''An account with this email already exists''
      else if str_includes (toLowerCase errorMessage) ''network'' \<or>
              str_includes (toLowerCase errorMessage) ''fetch'' then
        Str ''Network error. Please check your connection and try again.''
      else if str_includes (toLowerCase errorMessage) ''timeout'' then
        Str ''Request timed out. Please try again.''
      else Str ''An error occurred. Please try again later.'')"

definition getUserFriendlyError :: "error_input option \<Rightarrow> js_value" where
  "getUserFriendlyError err =
     (case err of
        None \<Rightarrow> Str ''An unexpected error occurred. Please try again.''
      | Some e \<Rightarrow>
          (let errorCode = or_empty (or_else (code e) (error_code e));
               errorMessage = or_empty (message e)
           in return_if_truthy (table_get authErrorMap errorCode)
                (return_if_truthy (table_get databaseErrorMap errorCode)
                   (match_message errorMessage))))"

subsection \<open>The lookup order in the words of the specification\<close>

definition message_patterns :: "(string list \<times> string) list" where
  \<comment> \<open>The five phrase patterns, each a list of alternative phrases with its canonical message.\<close>
  "message_patterns =
     [([''invalid login credentials''], ''Invalid email or password''),
      ([''email not confirmed''], ''Please verify your email address''),
      ([''already registered'', ''already exists''], ''An account with this email already exists''),
      ([''network'', ''fetch''], ''Network error. Please check your connection and try again.''),
      ([''timeout''], ''Request timed out. Please try again.'')]"

definition is_substring :: "string \<Rightarrow> string \<Rightarrow> bool" where
  \<comment> \<open>\<open>p\<close> is found in \<open>s\<close> at some offset.\<close>
  "is_substring p s = list_ex (\<lambda>i. take (length p) (drop i s) = p) [0..<Suc (length s)]"

definition lookup_order :: "string \<Rightarrow> string \<Rightarrow> string" where
  \<comment> \<open>First match wins: the code in the auth table, the code in the database table, the
      lower-cased message against the phrase patterns, the generic fallback.\<close>
  "lookup_order c m =
     (case map_of authErrorMap c of
        Some s \<Rightarrow> s
      | None \<Rightarrow>
         (case map_of databaseErrorMap c of
            Some s \<Rightarrow> s
          | None \<Rightarrow>
             (case find (\<lambda>(phrases, s). \<exists>p \<in> set phrases. is_substring p (toLowerCase m))
                     message_patterns of
                Some (phrases, s) \<Rightarrow> s
              | None \<Rightarrow> ''An error occurred. Please try again later.'')))"

definition nullish_code :: "error_input \<Rightarrow> string" where
  \<comment> \<open>\<open>error.code ?? error.error_code ?? ""\<close>, as the specification writes the extraction.\<close>
  "nullish_code e =
     (case code e of Some c \<Rightarrow> c | None \<Rightarrow> (case error_code e of Some c \<Rightarrow> c | None \<Rightarrow> []))"

definition nullish_message :: "error_input \<Rightarrow> string" where
  \<comment> \<open>\<open>error.message ?? ""\<close>\<close>
  "nullish_message e = (case message e of Some m \<Rightarrow> m | None \<Rightarrow> [])"

definition specified_getUserFriendlyError :: "error_input option \<Rightarrow> string" where
  \<comment> \<open>The function as the specification describes it.\<close>
  "specified_getUserFriendlyError err =
     (case err of
        None \<Rightarrow> ''An unexpected error occurred. Please try again.''
      | Some e \<Rightarrow> lookup_order (nullish_code e) (nullish_message e))"

definition truthy_code :: "error_input \<Rightarrow> string" where
  \<comment> \<open>The first of \<open>error.code\<close>, \<open>error.error_code\<close> that is present and not empty, else \<open>""\<close>.\<close>
  "truthy_code e =
     (case code e of
        Some (c # cs) \<Rightarrow> c # cs
      | _ \<Rightarrow> (case error_code e of Some c \<Rightarrow> c | None \<Rightarrow> []))"

definition raw_fields :: "error_input option \<Rightarrow> string list" where
  \<comment> \<open>The raw code and message fields that are present in the input.\<close>
  "raw_fields err =
     (case err of
        None \<Rightarrow> []
      | Some e \<Rightarrow> concat (map (\<lambda>f. case f of Some x \<Rightarrow> [x] | None \<Rightarrow> [])
                                [code e, error_code e, message e]))"

definition canonical_messages :: "string list" where
  \<comment> \<open>Every string literal the function can return.\<close>
  "canonical_messages =
     ''An unexpected error occurred. Please try again.'' #
     ''An error occurred. Please try again later.'' #
     map snd authErrorMap @ map snd databaseErrorMap @ map snd message_patterns"

section \<open>Claim verification handler\<close>

subsection \<open>Values\<close>

text \<open>
  The handler reads and writes JSON. \<open>json\<close> is a value as \<open>JSON.parse\<close> returns it and as
  \<open>JSON.stringify\<close> takes it. A number is a finite double, taken as the rational it denotes,
  or one of the two infinities: \<open>JSON.parse\<close> returns \<open>Infinity\<close> for a literal beyond the
  range of the doubles, such as \<open>1e999\<close>, and never returns NaN. A value of the language that
  may be \<open>undefined\<close> is a \<open>json option\<close>, with \<open>None\<close> for \<open>undefined\<close>.
\<close>

datatype number = Num rat | PosInfinity | NegInfinity

datatype json =
  JNull | JBool bool | JNum number | JStr string | JArr "json list"
  | JObj "(string \<times> json) list"

text \<open>The properties the handler reads; \<open>First\<close> is the index \<open>[0]\<close>.\<close>

datatype property =
  Claim | Choices | First | Message | Tool_calls | Function | Arguments
  | Verdict | Confidence | Reasoning

fun property_name :: "property \<Rightarrow> string" where
  "property_name Claim = ''claim''"
| "property_name Choices = ''choices''"
| "property_name First = ''0''"
| "property_name Message = ''message''"
| "property_name Tool_calls = ''tool_calls''"
| "property_name Function = ''function''"
| "property_name Arguments = ''arguments''"
| "property_name Verdict = ''verdict''"
| "property_name Confidence = ''confidence''"
| "property_name Reasoning = ''reasoning''"

fun get_property :: "json \<Rightarrow> property \<Rightarrow> json option" where
  \<comment> \<open>\<open>v[p]\<close> for a value that is neither \<open>null\<close> nor \<open>undefined\<close>. An object has its own
      entries, an array and a string have their elements; none of the ten names is defined
      on a prototype, so every other read is \<open>undefined\<close>.\<close>
  "get_property (JObj entries) p = map_of entries (property_name p)"
| "get_property (JArr xs) p =
     (case p of First \<Rightarrow> (case xs of [] \<Rightarrow> None | x # _ \<Rightarrow> Some x) | _ \<Rightarrow> None)"
| "get_property (JStr s) p =
     (case p of First \<Rightarrow> (case s of [] \<Rightarrow> None | c # _ \<Rightarrow> Some (JStr [c])) | _ \<Rightarrow> None)"
| "get_property (JNum n) p = None"
| "get_property (JBool b) p = None"
| "get_property JNull p = None"

fun truthy :: "json option \<Rightarrow> bool" where
  "truthy None = False"
| "truthy (Some JNull) = False"
| "truthy (Some (JBool b)) = b"
| "truthy (Some (JNum n)) = (n \<noteq> Num 0)"
| "truthy (Some (JStr s)) = (s \<noteq> [])"
| "truthy (Some (JArr xs)) = True"
| "truthy (Some (JObj entries)) = True"

fun typeof :: "json option \<Rightarrow> string" where
  "typeof None = ''undefined''"
| "typeof (Some JNull) = ''object''"
| "typeof (Some (JBool b)) = ''boolean''"
| "typeof (Some (JNum n)) = ''number''"
| "typeof (Some (JStr s)) = ''string''"
| "typeof (Some (JArr xs)) = ''object''"
| "typeof (Some (JObj entries)) = ''object''"

primrec JSON_stringify_value :: "json \<Rightarrow> json" where
  \<comment> \<open>The JSON value that the text \<open>JSON.stringify(v)\<close> denotes: a number that is not finite
      is written as \<open>null\<close>, at any depth.\<close>
  "JSON_stringify_value JNull = JNull"
| "JSON_stringify_value (JBool b) = JBool b"
| "JSON_stringify_value (JNum n) =
     (case n of Num q \<Rightarrow> JNum (Num q) | PosInfinity \<Rightarrow> JNull | NegInfinity \<Rightarrow> JNull)"
| "JSON_stringify_value (JStr s) = JStr s"
| "JSON_stringify_value (JArr xs) = JArr (map JSON_stringify_value xs)"
| "JSON_stringify_value (JObj entries) = JObj (map (map_prod id JSON_stringify_value) entries)"

definition JSON_stringify_object :: "(string \<times> json option) list \<Rightarrow> json" where
  \<comment> \<open>The JSON value that the text \<open>JSON.stringify({k1: v1, ...})\<close> denotes: a property whose
      value is \<open>undefined\<close> is left out, every other value is written by \<open>JSON.stringify\<close>.\<close>
  "JSON_stringify_object entries =
     JObj (concat (map (\<lambda>(k, v). case v of Some x \<Rightarrow> [(k, JSON_stringify_value x)]
                                     | None \<Rightarrow> []) entries))"

subsection \<open>Exceptions\<close>

text \<open>
  A thrown value is an \<open>Error\<close> instance with its message and its stack (a string, or
  \<open>undefined\<close>), or a value that is not an \<open>Error\<close> instance.
\<close>

datatype exn = Error string "string option" | NonError

definition and_then :: "'e + 'a \<Rightarrow> ('a \<Rightarrow> 'e + 'b) \<Rightarrow> 'e + 'b" where
  \<comment> \<open>Sequencing of two steps, the first of which may throw.\<close>
  "and_then r k = (case r of Inl e \<Rightarrow> Inl e | Inr x \<Rightarrow> k x)"

subsection \<open>Requests, responses and the runtime\<close>

record request = "method" :: string
  json :: "exn + json"  \<comment> \<open>the outcome of \<open>await req.json()\<close>\<close>

text \<open>
  A response of the handler. \<open>body\<close> is \<open>None\<close> for the \<open>null\<close> body and otherwise the JSON
  value whose serialisation is the body text.
\<close>

record response =
  status :: nat
  headers :: "(string \<times> string) list"
  body :: "json option"

definition new_Response :: "json option \<Rightarrow> nat option \<Rightarrow> (string \<times> string) list \<Rightarrow> response" where
  \<comment> \<open>\<open>new Response(body, {status, headers})\<close>; the status is 200 when the init has none.\<close>
  "new_Response b st hs =
     \<lparr>status = (case st of Some n \<Rightarrow> n | None \<Rightarrow> 200), headers = hs, body = b\<rparr>"

text \<open>The request the handler sends to the gateway with \<open>fetch\<close>, its body before serialisation.\<close>

record outbound =
  url :: string
  out_method :: string
  out_headers :: "(string \<times> string) list"
  out_body :: json

text \<open>The gateway's reply: its status and the outcomes of reading its body as text and as JSON.\<close>

record gateway_response =
  gw_status :: nat
  gw_text :: "exn + string"  \<comment> \<open>\<open>await response.text()\<close>\<close>
  gw_json :: "exn + json"  \<comment> \<open>\<open>await response.json()\<close>\<close>

definition ok :: "gateway_response \<Rightarrow> bool" where
  \<comment> \<open>\<open>response.ok\<close>: the status is in the range 200 to 299.\<close>
  "ok r = (200 \<le> gw_status r \<and> gw_status r \<le> 299)"

text \<open>
  A point in time as its UTC calendar fields (month and day from 1), and \<open>toISOString\<close>:
  \<open>YYYY-MM-DDTHH:mm:ss.sssZ\<close>, with the expanded year \<open>+YYYYYY\<close> after the year 9999.
\<close>

record date =
  year :: nat
  month :: nat
  day :: nat
  hours :: nat
  minutes :: nat
  seconds :: nat
  milliseconds :: nat

definition digits2 :: "nat \<Rightarrow> string" where
  "digits2 n = [digit_char (n div 10), digit_char n]"

definition digits3 :: "nat \<Rightarrow> string" where
  "digits3 n = [digit_char (n div 100), digit_char (n div 10), digit_char n]"

definition digits4 :: "nat \<Rightarrow> string" where
  "digits4 n = digit_char (n div 1000) # digits3 n"

definition digits6 :: "nat \<Rightarrow> string" where
  "digits6 n = digit_char (n div 100000) # digit_char (n div 10000) # digits4 n"

definition toISOString :: "date \<Rightarrow> string" where
  "toISOString d =
     (if year d \<le> 9999 then digits4 (year d) else CHR ''+'' # digits6 (year d)) @
     ''-'' @ digits2 (month d) @ ''-'' @ digits2 (day d) @
     ''T'' @ digits2 (hours d) @ '':'' @ digits2 (minutes d) @ '':'' @ digits2 (seconds d) @
     ''.'' @ digits3 (milliseconds d) @ ''Z''"

text \<open>
  What the runtime supplies to one invocation of the handler: the environment variable, the
  network, the JSON parser, the clock, the stack it records in a new \<open>Error\<close>, and the
  \<open>TypeError\<close> it throws when a property of \<open>null\<close> or \<open>undefined\<close> is read.
\<close>

record runtime =
  LOVABLE_API_KEY :: "string option"  \<comment> \<open>\<open>Deno.env.get("LOVABLE_API_KEY")\<close>\<close>
  fetch :: "outbound \<Rightarrow> exn + gateway_response"
  JSON_parse :: "json option \<Rightarrow> exn + json"
  now :: date  \<comment> \<open>\<open>new Date()\<close>\<close>
  stack :: "string \<Rightarrow> string option"
  TypeError :: "json option \<Rightarrow> property \<Rightarrow> exn"

definition new_Error :: "runtime \<Rightarrow> string \<Rightarrow> exn" where
  "new_Error rt msg = Error msg (stack rt msg)"

definition read :: "runtime \<Rightarrow> json option \<Rightarrow> property \<Rightarrow> exn + json option" where
  \<comment> \<open>\<open>v.p\<close>: throws on \<open>null\<close> and \<open>undefined\<close>.\<close>
  "read rt v p =
     (case v of
        None \<Rightarrow> Inl (TypeError rt v p)
      | Some JNull \<Rightarrow> Inl (TypeError rt v p)
      | Some x \<Rightarrow> Inr (get_property x p))"

definition read_optional :: "json option \<Rightarrow> property \<Rightarrow> json option" where
  \<comment> \<open>\<open>v?.p\<close>: \<open>undefined\<close> on \<open>null\<close> and \<open>undefined\<close>.\<close>
  "read_optional v p =
     (case v of None \<Rightarrow> None | Some JNull \<Rightarrow> None | Some x \<Rightarrow> get_property x p)"

subsection \<open>The handler\<close>

definition corsHeaders :: "(string \<times> string) list" where
  "corsHeaders =
     [(''Access-Control-Allow-Origin'', ''*''),
      (''Access-Control-Allow-Headers'', ''authorization, x-client-info, apikey, content-type'')]"

definition json_response :: "(string \<times> json option) list \<Rightarrow> nat option \<Rightarrow> response" where
  \<comment> \<open>\<open>new Response(JSON.stringify({...}), {status, headers: {...corsHeaders,
      "Content-Type": "application/json"}})\<close>\<close>
  "json_response entries st =
     new_Response (Some (JSON_stringify_object entries)) st
       (corsHeaders @ [(''Content-Type'', ''application/json'')])"

fun unlines :: "string list \<Rightarrow> string" where
  \<comment> \<open>The lines of a template literal, joined by line feeds.\<close>
  "unlines [] = []"
| "unlines [l] = l"
| "unlines (l # ls) = l @ [CHR 0x0A] @ unlines ls"

definition systemPrompt :: string where
  \<open>systemPrompt = unlines
     [''You are a fact-checking assistant. Analyze news claims and determine their veracity.'',
      ''Return a verdict of "True", "False", or "Uncertain" along with a confidence score (0-100) and brief reasoning.'',
      [],
      ''Guidelines:'',
      ''- "True": The claim is factually accurate and supported by evidence'',
      ''- "False": The claim is demonstrably false or misleading'',
      ''- "Uncertain": Insufficient evidence or requires more context'',
      ''- Confidence: Higher scores indicate stronger certainty in the verdict'',
      ''- Reasoning: Provide a brief explanation (2-3 sentences) for your verdict'']\<close>

definition verify_claim_parameters :: json where
  \<comment> \<open>The JSON schema of the tool's arguments.\<close>
  "verify_claim_parameters =
     JObj [(''type'', JStr ''object''),
           (''properties'', JObj
              [(''verdict'', JObj
                  [(''type'', JStr ''string''),
                   (''enum'', JArr [JStr ''True'', JStr ''False'', JStr ''Uncertain'']),
                   (''description'', JStr ''The factual verdict of the claim'')]),
               (''confidence'', JObj
                  [(''type'', JStr ''number''),
                   (''minimum'', JNum (Num 0)),
                   (''maximum'', JNum (Num 100)),
                   (''description'', JStr ''Confidence score from 0-100'')]),
               (''reasoning'', JObj
                  [(''type'', JStr ''string''),
                   (''description'', JStr ''Brief explanation for the verdict (2-3 sentences)'')])]),
           (''required'', JArr [JStr ''verdict'', JStr ''confidence'', JStr ''reasoning'']),
           (''additionalProperties'', JBool False)]"

definition request_body :: "string \<Rightarrow> json" where
  \<comment> \<open>The constant \<open>body\<close> of the handler.\<close>
  \<open>request_body claim =
     JObj [(''model'', JStr ''google/gemini-2.5-flash''),
           (''messages'', JArr
              [JObj [(''role'', JStr ''system''), (''content'', JStr systemPrompt)],
               JObj [(''role'', JStr ''user''),
                     (''content'', JStr (''Analyze this news claim: "'' @ claim @ ''"''))]]),
           (''tools'', JArr
              [JObj [(''type'', JStr ''function''),
                     (''function'', JObj
                        [(''name'', JStr ''verify_claim''),
                         (''description'', JStr ''Return the fact-check verdict for a news claim''),
                         (''parameters'', verify_claim_parameters)])]]),
           (''tool_choice'', JObj
              [(''type'', JStr ''function''),
               (''function'', JObj [(''name'', JStr ''verify_claim'')])])]\<close>

definition gateway_request :: "string \<Rightarrow> string \<Rightarrow> outbound" where
  \<comment> \<open>The argument of the one call of \<open>fetch\<close>.\<close>
  "gateway_request key claim =
     \<lparr>url = ''https://ai.gateway.lovable.dev/v1/chat/completions'',
      out_method = ''POST'',
      out_headers = [(''Authorization'', ''Bearer '' @ key), (''Content-Type'', ''application/json'')],
      out_body = request_body claim\<rparr>"

definition toolCall_of :: "runtime \<Rightarrow> json \<Rightarrow> exn + json option" where
  \<comment> \<open>\<open>result.choices?.[0]?.message?.tool_calls?.[0]\<close>\<close>
  "toolCall_of rt result =
     and_then (read rt (Some result) Choices) (\<lambda>choices.
       Inr (read_optional (read_optional (read_optional (read_optional choices First) Message)
              Tool_calls) First))"

definition respond_verification :: "runtime \<Rightarrow> string \<Rightarrow> json \<Rightarrow> exn + response" where
  \<comment> \<open>Lines 110 to 130: from the parsed reply of the gateway to the response.\<close>
  "respond_verification rt claim result =
     and_then (toolCall_of rt result) (\<lambda>toolCall.
       if \<not> truthy toolCall then Inl (new_Error rt ''No tool call in AI response'')
       else
         and_then (read rt toolCall Function) (\<lambda>function.
         and_then (read rt function Arguments) (\<lambda>arguments.
         and_then (JSON_parse rt arguments) (\<lambda>verification.
         and_then (read rt (Some verification) Verdict) (\<lambda>verdict.
         and_then (read rt (Some verification) Confidence) (\<lambda>confidence.
         and_then (read rt (Some verification) Reasoning) (\<lambda>reasoning.
           Inr (json_response
                  [(''claim'', Some (JStr claim)),
                   (''verdict'', verdict),
                   (''confidence'', confidence),
                   (''reasoning'', reasoning),
                   (''timestamp'', Some (JStr (toISOString (now rt))))]
                  None))))))))"

definition respond_gateway :: "runtime \<Rightarrow> string \<Rightarrow> gateway_response \<Rightarrow> exn + response" where
  \<comment> \<open>Lines 89 to 130: what follows the call of \<open>fetch\<close>.\<close>
  "respond_gateway rt claim response =
     (if \<not> ok response then
        if gw_status response = 429 then
          Inr (json_response
                 [(''error'', Some (JStr ''Rate limit exceeded. Please try again later.''))]
                 (Some 429))
        else if gw_status response = 402 then
          Inr (json_response
                 [(''error'',
                   Some (JStr ''Payment required. Please add credits to your Lovable AI workspace.''))]
                 (Some 402))
        else
          and_then (gw_text response) (\<lambda>errorText.
            Inr (json_response
                   [(''error'', Some (JStr ''AI gateway error'')),
                    (''details'', Some (JStr errorText))]
                   (Some 500)))
      else and_then (gw_json response) (respond_verification rt claim))"

definition try_block :: "request \<Rightarrow> runtime \<Rightarrow> (exn + response) \<times> outbound list" where
  \<comment> \<open>The body of \<open>try\<close>: what it returns or throws, and the calls of \<open>fetch\<close> it made.\<close>
  "try_block req rt =
     (case and_then (json req) (\<lambda>parsed. read rt (Some parsed) Claim) of
        Inl e \<Rightarrow> (Inl e, [])
      | Inr claim \<Rightarrow>
          if \<not> truthy claim \<or> typeof claim \<noteq> ''string'' then
            (Inr (json_response
                    [(''error'', Some (JStr ''Missing or invalid 'claim' field''))] (Some 400)),
             [])
          else
            (case claim of
               Some (JStr c) \<Rightarrow>
                 (case LOVABLE_API_KEY rt of
                    None \<Rightarrow> (Inl (new_Error rt ''LOVABLE_API_KEY is not configured''), [])
                  | Some key \<Rightarrow>
                      if key = [] then
                        (Inl (new_Error rt ''LOVABLE_API_KEY is not configured''), [])
                      else
                        (and_then (fetch rt (gateway_request key c)) (respond_gateway rt c),
                         [gateway_request key c]))
             | _ \<Rightarrow>
                 (Inr (json_response
                         [(''error'', Some (JStr ''Missing or invalid 'claim' field''))] (Some 400)),
                  [])))"

definition catch_block :: "exn \<Rightarrow> response" where
  \<comment> \<open>Lines 132 to 141\<close>
  "catch_block e =
     json_response
       [(''error'', Some (JStr (case e of Error msg st \<Rightarrow> msg | NonError \<Rightarrow> ''Unknown error''))),
        (''details'', (case e of Error msg st \<Rightarrow> map_option JStr st | NonError \<Rightarrow> None))]
       (Some 500)"

definition handler :: "request \<Rightarrow> runtime \<Rightarrow> response \<times> outbound list" where
  \<comment> \<open>The function given to \<open>serve\<close>: its response and the calls of \<open>fetch\<close> it made.\<close>
  "handler req rt =
     (if method req = ''OPTIONS'' then (new_Response None None corsHeaders, [])
      else
        (case try_block req rt of
           (Inr response, calls) \<Rightarrow> (response, calls)
         | (Inl e, calls) \<Rightarrow> (catch_block e, calls)))"

subsection \<open>The shape of an ISO 8601 timestamp\<close>



subsection \<open>The conditions of the specification\<close>

definition valid_request :: "request \<Rightarrow> string \<Rightarrow> bool" where
  \<comment> \<open>A request other than the preflight whose JSON body has the non-empty string \<open>c\<close> as
      its \<open>claim\<close>.\<close>
  "valid_request req c =
     (method req \<noteq> ''OPTIONS'' \<and> c \<noteq> [] \<and>
      (case json req of Inr parsed \<Rightarrow> get_property parsed Claim = Some (JStr c) | Inl e \<Rightarrow> False))"

definition gateway_replies :: "runtime \<Rightarrow> string \<Rightarrow> gateway_response \<Rightarrow> bool" where
  \<comment> \<open>The API key is configured and the gateway answers the request for \<open>c\<close> with \<open>r\<close>.\<close>
  "gateway_replies rt c r =
     (case LOVABLE_API_KEY rt of
        None \<Rightarrow> False
      | Some key \<Rightarrow> key \<noteq> [] \<and> fetch rt (gateway_request key c) = Inr r)"

definition tool_call_arguments :: "runtime \<Rightarrow> json \<Rightarrow> json \<Rightarrow> bool" where
  \<comment> \<open>The reply \<open>result\<close> has a first tool call, and its arguments parse to \<open>verification\<close>.\<close>
  "tool_call_arguments rt result verification =
     (case toolCall_of rt result of
        Inr (Some toolCall) \<Rightarrow>
          truthy (Some toolCall) \<and>
          (case get_property toolCall Function of
             Some f \<Rightarrow> f \<noteq> JNull \<and> JSON_parse rt (get_property f Arguments) = Inr verification
           | None \<Rightarrow> False)
      | _ \<Rightarrow> False)"


fun all_finite :: "json \<Rightarrow> bool" where
  \<comment> \<open>No number in the value, at any depth, is an infinity.\<close>
  "all_finite (JNum n) = (case n of Num q \<Rightarrow> True | PosInfinity \<Rightarrow> False | NegInfinity \<Rightarrow> False)"
| "all_finite (JArr xs) = list_all all_finite xs"
| "all_finite (JObj entries) = list_all (\<lambda>entry. all_finite (snd entry)) entries"
| "all_finite v = True"

fun at_path :: "json \<Rightarrow> string list \<Rightarrow> json option" where
  \<comment> \<open>The value found in a JSON document by following keys, \<open>0\<close> being the first element of
      an array.\<close>
  "at_path v [] = Some v"
| "at_path (JObj entries) (k # ks) =
     (case map_of entries k of Some x \<Rightarrow> at_path x ks | None \<Rightarrow> None)"
| "at_path (JArr xs) (k # ks) =
     (case xs of x # _ \<Rightarrow> if k = ''0'' then at_path x ks else None | [] \<Rightarrow> None)"
| "at_path _ (k # ks) = None"

subsection \<open>A sample exchange\<close>

text \<open>
  The exchange of the specification's end-to-end test: the request, the gateway's reply with
  one tool call, and a runtime that is given the key, the reply and the parser's answer. The
  text of the tool call's arguments is given the literal of its confidence, and the runtime's
  parser answers for that text.
\<close>

definition sample_request :: "json \<Rightarrow> request" where
  "sample_request parsed = \<lparr>method = ''POST'', json = Inr parsed\<rparr>"

definition sample_arguments :: "string \<Rightarrow> string" where
  \<open>sample_arguments literal =
     ''{"verdict":"False","confidence":'' @ literal @
     '',"reasoning":"The daytime sky is blue."}''\<close>

definition sample_verification :: "json \<Rightarrow> json" where
  "sample_verification confidence =
     JObj [(''verdict'', JStr ''False''), (''confidence'', confidence),
           (''reasoning'', JStr ''The daytime sky is blue.'')]"

definition sample_result :: "json list \<Rightarrow> json" where
  "sample_result tool_calls =
     JObj [(''choices'', JArr
       [JObj [(''index'', JNum (Num 0)),
              (''message'', JObj [(''role'', JStr ''assistant''),
                                  (''tool_calls'', JArr tool_calls)])]])]"

definition sample_tool_call :: "string \<Rightarrow> json" where
  "sample_tool_call literal =
     JObj [(''type'', JStr ''function''),
           (''function'', JObj [(''name'', JStr ''verify_claim''),
                                (''arguments'', JStr (sample_arguments literal))])]"

definition sample_reply :: "nat \<Rightarrow> string \<Rightarrow> exn + json \<Rightarrow> gateway_response" where
  "sample_reply st text parsed = \<lparr>gw_status = st, gw_text = Inr text, gw_json = parsed\<rparr>"

definition sample_runtime ::
  "string \<Rightarrow> string option \<Rightarrow> exn + gateway_response \<Rightarrow> exn + json \<Rightarrow> runtime" where
  "sample_runtime literal key reply parsed =
     \<lparr>LOVABLE_API_KEY = key,
      fetch = (\<lambda>q. reply),
      JSON_parse = (\<lambda>v. if v = Some (JStr (sample_arguments literal)) then parsed
                          else Inl (Error ''Unexpected token in JSON'' None)),
      now = \<lparr>year = 2025, month = 3, day = 9, hours = 14, minutes = 5, seconds = 7,
             milliseconds = 42\<rparr>,
      stack = (\<lambda>msg. Some (''Error: '' @ msg)),
      TypeError = (\<lambda>v p. Error (''Cannot read properties (reading '' @ property_name p @ '')'')
                             None)\<rparr>"

section \<open>Properties of the string operations\<close>

lemmas sample_defs = sample_request_def sample_arguments_def sample_verification_def
  sample_result_def sample_tool_call_def sample_reply_def sample_runtime_def

lemma starts_with_take: "starts_with s p \<longleftrightarrow> take (length p) s = p"
  by (induction s p rule: starts_with.induct) auto

lemma is_substring_iff:
  "is_substring p s \<longleftrightarrow> (\<exists>i \<le> length s. take (length p) (drop i s) = p)"
proof -
  have "set [0..<Suc (length s)] = {i. i \<le> length s}" by auto
  then show ?thesis unfolding is_substring_def list_ex_iff by blast
qed

lemma is_substring_Cons:
  "is_substring p (c # cs) \<longleftrightarrow> take (length p) (c # cs) = p \<or> is_substring p cs"
proof
  assume "is_substring p (c # cs)"
  then obtain i where i: "i \<le> Suc (length cs)" "take (length p) (drop i (c # cs)) = p"
    unfolding is_substring_iff by auto
  show "take (length p) (c # cs) = p \<or> is_substring p cs"
  proof (cases i)
    case 0
    with i show ?thesis by simp
  next
    case (Suc j)
    with i have "j \<le> length cs" "take (length p) (drop j cs) = p" by simp_all
    then show ?thesis unfolding is_substring_iff by blast
  qed
next
  assume "take (length p) (c # cs) = p \<or> is_substring p cs"
  then show "is_substring p (c # cs)"
  proof
    assume "take (length p) (c # cs) = p"
    then have "0 \<le> length (c # cs) \<and> take (length p) (drop 0 (c # cs)) = p" by simp
    then show ?thesis unfolding is_substring_iff by blast
  next
    assume "is_substring p cs"
    then obtain j where "j \<le> length cs" "take (length p) (drop j cs) = p"
      unfolding is_substring_iff by blast
    then have "Suc j \<le> length (c # cs) \<and> take (length p) (drop (Suc j) (c # cs)) = p" by simp
    then show ?thesis unfolding is_substring_iff by blast
  qed
qed

text \<open>\<open>includes\<close> of the source is the substring relation of the specification.\<close>

lemma str_includes_iff: "str_includes s p \<longleftrightarrow> is_substring p s"
proof (induction s)
  case Nil
  show ?case by (auto simp: is_substring_iff)
next
  case (Cons c cs)
  then show ?case by (simp add: is_substring_Cons starts_with_take)
qed

lemma is_substring_append: "is_substring p s \<longleftrightarrow> (\<exists>a b. s = a @ p @ b)"
proof
  assume "is_substring p s"
  then obtain i where "i \<le> length s" "take (length p) (drop i s) = p"
    unfolding is_substring_iff by blast
  then have "s = take i s @ p @ drop (length p) (drop i s)"
    by (metis append_take_drop_id)
  then show "\<exists>a b. s = a @ p @ b" by blast
next
  assume "\<exists>a b. s = a @ p @ b"
  then obtain a b where "s = a @ p @ b" by blast
  then have "length a \<le> length s \<and> take (length p) (drop (length a) s) = p" by simp
  then show "is_substring p s" unfolding is_substring_iff by blast
qed

lemma trim_examples:
  "trim '''' = ''''" "trim ''ok tag-1'' = ''ok tag-1''" "trim ''bad!tag'' = ''bad!tag''"
  "trim ''  two words  '' = ''two words''" "trim '' '' = ''''"
  "trim ''Valid claim'' = ''Valid claim''"
  by (simp_all add: trim_def is_whitespace_def whitespace_chars_def)

text \<open>\<open>trim\<close> removes white space, and only white space, from both ends.\<close>

lemma trim_decompose:
  "\<exists>a b. s = a @ trim s @ b \<and> list_all is_whitespace a \<and> list_all is_whitespace b"
proof -
  let ?a = "takeWhile is_whitespace s"
  let ?r = "dropWhile is_whitespace s"
  let ?b = "rev (takeWhile is_whitespace (rev ?r))"
  have "?r = rev (rev ?r)" by simp
  also have "\<dots> = rev (takeWhile is_whitespace (rev ?r) @ dropWhile is_whitespace (rev ?r))"
    by (simp only: takeWhile_dropWhile_id)
  also have "\<dots> = rev (dropWhile is_whitespace (rev ?r)) @ ?b"
    by (rule rev_append)
  finally have r: "?r = trim s @ ?b"
    unfolding trim_def .
  have "s = ?a @ ?r" by simp
  also have "\<dots> = ?a @ trim s @ ?b" by (rule arg_cong [OF r])
  finally have "s = ?a @ trim s @ ?b" .
  moreover have "list_all is_whitespace ?a" by (auto simp: list_all_iff dest: set_takeWhileD)
  moreover have "list_all is_whitespace ?b" by (auto simp: list_all_iff dest: set_takeWhileD)
  ultimately show ?thesis by blast
qed

lemma last_after_dropWhile: "dropWhile P xs \<noteq> [] \<Longrightarrow> last (dropWhile P xs) = last xs"
  by (induction xs) (auto split: if_splits)

lemma trim_ends:
  assumes "trim s \<noteq> []"
  shows "\<not> is_whitespace (hd (trim s))" and "\<not> is_whitespace (last (trim s))"
proof -
  let ?r = "dropWhile is_whitespace s"
  let ?q = "dropWhile is_whitespace (rev ?r)"
  from assms have q: "?q \<noteq> []" by (simp add: trim_def)
  then have "\<not> is_whitespace (hd ?q)" by (rule hd_dropWhile)
  then show "\<not> is_whitespace (last (trim s))" using q by (simp add: trim_def last_rev)
  from q have r: "?r \<noteq> []" by fastforce
  then have h: "\<not> is_whitespace (hd ?r)" by (rule hd_dropWhile)
  have "hd (trim s) = last ?q" using q by (simp add: trim_def hd_rev)
  also have "\<dots> = last (rev ?r)" using q by (rule last_after_dropWhile)
  also have "\<dots> = hd ?r" using r by (simp add: last_rev)
  finally show "\<not> is_whitespace (hd (trim s))" using h by simp
qed

lemma trim_empty_iff: "trim s = [] \<longleftrightarrow> list_all is_whitespace s"
proof
  assume "trim s = []"
  with trim_decompose [of s] show "list_all is_whitespace s" by auto
next
  assume "list_all is_whitespace s"
  then have "dropWhile is_whitespace s = []" by (induction s) simp_all
  then have "trim s = rev (dropWhile is_whitespace (rev []))" by (simp only: trim_def)
  then show "trim s = []" by simp
qed

lemma decimal_limits:
  "decimal 50 = ''50''" "decimal 100 = ''100''" "decimal 5000 = ''5000''"
  by (simp_all add: decimal.simps digit_char_def)

section \<open>Properties of the validation helpers\<close>

lemma lower_range:
  "in_range CHR ''a'' CHR ''z'' c \<longleftrightarrow> c \<in> set ''abcdefghijklmnopqrstuvwxyz''"
  unfolding in_range_def by (cases c) auto

lemma upper_range:
  "in_range CHR ''A'' CHR ''Z'' c \<longleftrightarrow> c \<in> set ''ABCDEFGHIJKLMNOPQRSTUVWXYZ''"
  unfolding in_range_def by (cases c) auto

lemma digit_range: "in_range CHR ''0'' CHR ''9'' c \<longleftrightarrow> is_digit c"
  unfolding in_range_def is_digit_def by (cases c) auto

lemma letter_ranges:
  "in_range CHR ''a'' CHR ''z'' c \<or> in_range CHR ''A'' CHR ''Z'' c \<longleftrightarrow> is_letter c"
  unfolding lower_range upper_range is_letter_def by auto

lemma tag_class_alphabet:
  "tag_class c \<longleftrightarrow> is_letter c \<or> is_digit c \<or> is_whitespace c \<or> c = CHR ''-'' \<or> c = CHR ''_''"
  unfolding tag_class_def using letter_ranges [of c] digit_range [of c] by blast

lemma match_plus_all: "match_plus cls s \<longleftrightarrow> s \<noteq> [] \<and> list_all cls s"
  by (induction s) auto

lemma tagPattern_test_alphabet: "tagPattern_test s \<longleftrightarrow> s \<noteq> [] \<and> tag_characters_only s"
  by (simp add: tagPattern_test_def match_plus_all tag_characters_only_def tag_class_alphabet
        list_all_iff)

text \<open>When the validators accept.\<close>

lemma validateTag_valid_iff:
  "valid (validateTag tag) \<longleftrightarrow>
     \<not> list_all is_whitespace tag \<and> length (trim tag) \<le> 50 \<and> tag_characters_only (trim tag)"
  by (auto simp: validateTag_def maxTagLength_def trim_empty_iff Let_def tagPattern_test_alphabet)

lemma validateClaim_valid_iff:
  "valid (validateClaim claim) \<longleftrightarrow>
     \<not> list_all is_whitespace claim \<and> length (trim claim) \<le> 5000"
  by (simp add: validateClaim_def maxClaimLength_def trim_empty_iff Let_def)

text \<open>
  Claim C5. For every string \<open>tag\<close>, \<open>validateTag\<close> trims it first. If the trimmed value is
  empty the result is invalid with the error "Tag cannot be empty"; else if the trimmed value
  is longer than 50 the result is invalid with the length error; else if the trimmed value
  does not consist solely of letters (a to z, A to Z), digits, white space, hyphens and
  underscores the result is invalid with the pattern error; otherwise the result is valid,
  with no error. All three checks read the trimmed value.
\<close>

theorem validateTag_cases:
  "validateTag tag =
     (if trim tag = [] then \<lparr>valid = False, error = Some ''Tag cannot be empty''\<rparr>
      else if length (trim tag) > 50 then
        \<lparr>valid = False, error = Some ''Tag must be 50 characters or less''\<rparr>
      else if \<not> tag_characters_only (trim tag) then
        \<lparr>valid = False,
         error = Some ''Tags can only contain letters, numbers, spaces, hyphens, and underscores''\<rparr>
      else \<lparr>valid = True, error = None\<rparr>)"
proof (cases "trim tag = []")
  case True
  then show ?thesis by (simp add: validateTag_def)
next
  case nonempty: False
  show ?thesis
  proof (cases "length (trim tag) > 50")
    case True
    with nonempty show ?thesis
      by (simp add: validateTag_def maxTagLength_def decimal_limits)
  next
    case False
    have "tagPattern_test (trim tag) \<longleftrightarrow> tag_characters_only (trim tag)"
      using nonempty by (simp add: tagPattern_test_alphabet)
    with nonempty False show ?thesis
      by (simp add: validateTag_def maxTagLength_def)
  qed
qed

theorem validateTag_cases_witness:
  "validateTag '''' = \<lparr>valid = False, error = Some ''Tag cannot be empty''\<rparr> \<and>
   validateTag (replicate 51 CHR ''a'') =
     \<lparr>valid = False, error = Some ''Tag must be 50 characters or less''\<rparr> \<and>
   validateTag ''ok tag-1'' = \<lparr>valid = True, error = None\<rparr> \<and>
   validateTag ''bad!tag'' =
     \<lparr>valid = False,
      error = Some ''Tags can only contain letters, numbers, spaces, hyphens, and underscores''\<rparr>"
proof -
  have t: "trim (replicate 51 CHR ''a'') = replicate 51 CHR ''a''"
    by (simp add: trim_def is_whitespace_def whitespace_chars_def)
  show ?thesis
    using validateTag_cases [of "''''"] validateTag_cases [of "replicate 51 CHR ''a''"]
      validateTag_cases [of "''ok tag-1''"] validateTag_cases [of "''bad!tag''"]
    by (simp add: t trim_examples tag_characters_only_def is_letter_def is_digit_def
          is_whitespace_def whitespace_chars_def)
qed

text \<open>
  Claim C6. For every string \<open>claim\<close>, \<open>validateClaim\<close> trims it first. If the trimmed value
  is empty the result is invalid with the error "Please enter a news claim to verify"; else if
  the trimmed value is longer than 5000 the result is invalid with the length error;
  otherwise the result is valid, with no error.
\<close>

theorem validateClaim_cases:
  "validateClaim claim =
     (if trim claim = [] then
        \<lparr>valid = False, error = Some ''Please enter a news claim to verify''\<rparr>
      else if length (trim claim) > 5000 then
        \<lparr>valid = False, error = Some ''Claim must be 5000 characters or less''\<rparr>
      else \<lparr>valid = True, error = None\<rparr>)"
proof (cases "trim claim = []")
  case True
  then show ?thesis by (simp add: validateClaim_def)
next
  case nonempty: False
  show ?thesis
  proof (cases "length (trim claim) > 5000")
    case True
    with nonempty show ?thesis
      by (simp add: validateClaim_def maxClaimLength_def decimal_limits)
  next
    case False
    with nonempty show ?thesis
      by (simp add: validateClaim_def maxClaimLength_def)
  qed
qed

theorem validateClaim_cases_witness:
  "validateClaim '' '' =
     \<lparr>valid = False, error = Some ''Please enter a news claim to verify''\<rparr> \<and>
   validateClaim (replicate 5001 CHR ''x'') =
     \<lparr>valid = False, error = Some ''Claim must be 5000 characters or less''\<rparr> \<and>
   validateClaim ''Valid claim'' = \<lparr>valid = True, error = None\<rparr>"
proof -
  have t: "trim (replicate 5001 CHR ''x'') = replicate 5001 CHR ''x''"
    by (simp add: trim_def is_whitespace_def whitespace_chars_def)
  show ?thesis
    using validateClaim_cases [of "'' ''"] validateClaim_cases [of "replicate 5001 CHR ''x''"]
      validateClaim_cases [of "''Valid claim''"]
    by (simp add: t trim_examples)
qed

section \<open>Properties of the error normaliser\<close>

lemma table_values_nonempty:
  "map_of authErrorMap k = Some v \<Longrightarrow> v \<noteq> []"
  "map_of databaseErrorMap k = Some v \<Longrightarrow> v \<noteq> []"
  by (auto simp: authErrorMap_def databaseErrorMap_def split: if_splits)

lemma return_if_truthy_auth:
  "k \<notin> set Object_prototype_names \<Longrightarrow>
   return_if_truthy (table_get authErrorMap k) rest =
     (case map_of authErrorMap k of Some v \<Rightarrow> Str v | None \<Rightarrow> rest)"
  by (auto simp: return_if_truthy_def table_get_def table_values_nonempty split: option.splits)

lemma return_if_truthy_database:
  "k \<notin> set Object_prototype_names \<Longrightarrow>
   return_if_truthy (table_get databaseErrorMap k) rest =
     (case map_of databaseErrorMap k of Some v \<Rightarrow> Str v | None \<Rightarrow> rest)"
  by (auto simp: return_if_truthy_def table_get_def table_values_nonempty split: option.splits)

lemma match_message_patterns:
  "match_message m =
     Str (case find (\<lambda>(phrases, s). \<exists>p \<in> set phrases. is_substring p (toLowerCase m))
                 message_patterns of
            Some (phrases, s) \<Rightarrow> s
          | None \<Rightarrow> ''An error occurred. Please try again later.'')"
  unfolding match_message_def message_patterns_def str_includes_iff by simp

lemma or_code: "or_empty (or_else (code e) (error_code e)) = truthy_code e"
  by (auto simp: or_empty_def or_else_def truthy_code_def split: option.splits list.splits)

lemma or_message: "or_empty (message e) = nullish_message e"
  by (simp add: or_empty_def nullish_message_def)

lemma lower_examples:
  "toLowerCase ''Network request failed'' = ''network request failed''"
  by (simp add: toLowerCase_def lower_char_def upper_to_lower_def)

text \<open>
  Claim C2, amended. An absent or null input gives "An unexpected error occurred. Please try
  again.". Otherwise the code is the first of \<open>error.code\<close> and \<open>error.error_code\<close> that is
  present and not empty (else the empty string), the message is \<open>error.message\<close> or the empty
  string, and, for every code that is not the name of a member of \<open>Object.prototype\<close>, the
  result is found in this order, the first match winning: the code, compared exactly, in the
  auth table of 11 entries; the code in the database table of 5 entries; the lower-cased
  message searched for the five phrase patterns; the fallback "An error occurred. Please try
  again later.".
\<close>

theorem getUserFriendlyError_lookup_order:
  "getUserFriendlyError None = Str ''An unexpected error occurred. Please try again.'' \<and>
   (truthy_code e \<notin> set Object_prototype_names \<longrightarrow>
      getUserFriendlyError (Some e) = Str (lookup_order (truthy_code e) (nullish_message e))) \<and>
   length authErrorMap = 11 \<and> length databaseErrorMap = 5 \<and> length message_patterns = 5"
proof (intro conjI impI)
  show "getUserFriendlyError None = Str ''An unexpected error occurred. Please try again.''"
    by (simp add: getUserFriendlyError_def)
next
  assume k: "truthy_code e \<notin> set Object_prototype_names"
  show "getUserFriendlyError (Some e) = Str (lookup_order (truthy_code e) (nullish_message e))"
    unfolding getUserFriendlyError_def lookup_order_def
    by (simp add: or_code or_message return_if_truthy_auth [OF k] return_if_truthy_database [OF k]
          match_message_patterns split: option.splits)
qed (simp_all add: authErrorMap_def databaseErrorMap_def message_patterns_def)

theorem getUserFriendlyError_lookup_order_witness:
  "truthy_code \<lparr>code = Some [], error_code = Some ''PGRST116'',
       message = Some ''Network request failed''\<rparr> \<notin> set Object_prototype_names \<and>
   getUserFriendlyError (Some \<lparr>code = Some [], error_code = Some ''PGRST116'',
       message = Some ''Network request failed''\<rparr>) = Str ''Record not found'' \<and>
   truthy_code \<lparr>code = Some ''pgrst116'', error_code = None,
       message = Some ''Network request failed''\<rparr> \<notin> set Object_prototype_names \<and>
   getUserFriendlyError (Some \<lparr>code = Some ''pgrst116'', error_code = None,
       message = Some ''Network request failed''\<rparr>)
     = Str ''Network error. Please check your connection and try again.''"
  using
    getUserFriendlyError_lookup_order
      [of "\<lparr>code = Some [], error_code = Some ''PGRST116'',
            message = Some ''Network request failed''\<rparr>"]
    getUserFriendlyError_lookup_order
      [of "\<lparr>code = Some ''pgrst116'', error_code = None,
            message = Some ''Network request failed''\<rparr>"]
  by (simp add: truthy_code_def Object_prototype_names_def lookup_order_def authErrorMap_def
        databaseErrorMap_def nullish_message_def message_patterns_def lower_examples
        str_includes_iff [symmetric])

text \<open>
  The claim as the specification states it takes the code with \<open>??\<close>, which keeps an empty
  \<open>error.code\<close>; the source takes it with \<open>||\<close>, which passes an empty \<open>error.code\<close> over for
  \<open>error.error_code\<close>. The two differ on the input \<open>{code: "", error_code: "23505"}\<close>.
\<close>

theorem getUserFriendlyError_nullish_counterexample:
  "getUserFriendlyError (Some \<lparr>code = Some [], error_code = Some ''23505'', message = None\<rparr>)
     = Str ''This record already exists'' \<and>
   specified_getUserFriendlyError
       (Some \<lparr>code = Some [], error_code = Some ''23505'', message = None\<rparr>)
     = ''An error occurred. Please try again later.''"
  by (simp add: getUserFriendlyError_def or_empty_def or_else_def return_if_truthy_def table_get_def
        authErrorMap_def databaseErrorMap_def Object_prototype_names_def
        specified_getUserFriendlyError_def nullish_code_def nullish_message_def lookup_order_def
        message_patterns_def is_substring_def toLowerCase_def)

text \<open>
  A code that names a member of \<open>Object.prototype\<close> is found in the auth table by
  inheritance, and the function returns that member, which is not a string.
\<close>

lemma getUserFriendlyError_inherited:
  "getUserFriendlyError (Some \<lparr>code = Some ''toString'', error_code = None, message = None\<rparr>)
     = Inherited ''toString''"
  by (simp add: getUserFriendlyError_def or_empty_def or_else_def return_if_truthy_def table_get_def
        authErrorMap_def Object_prototype_names_def)

text \<open>Every code of the two tables gives its mapped string, whatever the message.\<close>

lemma table_keys:
  "list_all (\<lambda>(k, v). k \<noteq> [] \<and> k \<notin> set Object_prototype_names)
     (authErrorMap @ databaseErrorMap)"
  "distinct (map fst (authErrorMap @ databaseErrorMap))"
  by (simp_all add: authErrorMap_def databaseErrorMap_def Object_prototype_names_def)

lemma getUserFriendlyError_tables:
  assumes "(k, v) \<in> set (authErrorMap @ databaseErrorMap)"
  shows "getUserFriendlyError (Some \<lparr>code = Some k, error_code = ec, message = m\<rparr>) = Str v"
proof -
  from assms table_keys(1) have k: "k \<noteq> []" "k \<notin> set Object_prototype_names"
    unfolding list_all_iff by blast+
  have "map_of (authErrorMap @ databaseErrorMap) k = Some v"
    using table_keys(2) assms by (rule map_of_is_SomeI)
  then have v: "(case map_of authErrorMap k of Some s \<Rightarrow> Some s
                 | None \<Rightarrow> map_of databaseErrorMap k) = Some v"
    by (simp add: map_add_def split: option.splits)
  have "or_empty (or_else (Some k) ec) = k"
    using k(1) by (simp add: or_empty_def or_else_def)
  then have "getUserFriendlyError (Some \<lparr>code = Some k, error_code = ec, message = m\<rparr>) =
      return_if_truthy (table_get authErrorMap k)
        (return_if_truthy (table_get databaseErrorMap k) (match_message (or_empty m)))"
    by (simp add: getUserFriendlyError_def)
  also have "\<dots> = Str v"
    using v by (simp add: return_if_truthy_auth [OF k(2)] return_if_truthy_database [OF k(2)]
        split: option.splits)
  finally show ?thesis .
qed

lemma return_if_truthy_Str:
  "return_if_truthy (table_get table k) rest = Str s \<Longrightarrow>
   s \<in> set (map snd table) \<or> rest = Str s"
  by (auto simp: return_if_truthy_def table_get_def split: option.splits if_splits
        dest!: map_of_SomeD intro: rev_image_eqI)

lemma match_message_canonical: "match_message m = Str s \<Longrightarrow> s \<in> set canonical_messages"
  by (auto simp: match_message_def canonical_messages_def message_patterns_def split: if_splits)

lemma getUserFriendlyError_canonical:
  assumes "getUserFriendlyError err = Str s"
  shows "s \<in> set canonical_messages"
proof (cases err)
  case None
  with assms show ?thesis by (auto simp: getUserFriendlyError_def canonical_messages_def)
next
  case (Some e)
  let ?c = "or_empty (or_else (code e) (error_code e))"
  from assms Some have
    "return_if_truthy (table_get authErrorMap ?c)
       (return_if_truthy (table_get databaseErrorMap ?c)
          (match_message (or_empty (message e)))) = Str s"
    by (simp add: getUserFriendlyError_def Let_def)
  then consider "s \<in> set (map snd authErrorMap)" | "s \<in> set (map snd databaseErrorMap)"
    | "match_message (or_empty (message e)) = Str s"
    by (blast dest: return_if_truthy_Str)
  then show ?thesis
  proof cases
    case 1
    then show ?thesis by (simp add: canonical_messages_def)
  next
    case 2
    then show ?thesis by (simp add: canonical_messages_def)
  next
    case 3
    then show ?thesis by (rule match_message_canonical)
  qed
qed

lemma canonical_messages_nonempty: "[] \<notin> set canonical_messages"
  by (simp add: canonical_messages_def authErrorMap_def databaseErrorMap_def message_patterns_def)

lemma canonical_messages_distinct: "length (remdups canonical_messages) = 17"
  by (simp add: canonical_messages_def authErrorMap_def databaseErrorMap_def message_patterns_def)

lemma lower_fallback:
  "toLowerCase ''An error occurred. Please try again later.''
     = ''an error occurred. please try again later.''"
  by (simp add: toLowerCase_def lower_char_def upper_to_lower_def)

lemma match_message_fallback:
  "match_message ''An error occurred. Please try again later.''
     = Str ''An error occurred. Please try again later.''"
  unfolding match_message_def lower_fallback by simp

text \<open>
  Claim C3, amended. For every input, \<open>getUserFriendlyError\<close> never returns an empty string,
  and its return value equals a raw code or message field of the input only when that field
  is itself one of the fixed user-facing strings the function returns.
\<close>

theorem getUserFriendlyError_no_echo:
  "getUserFriendlyError err \<noteq> Str [] \<and>
   (\<forall>x \<in> set (raw_fields err).
      x \<notin> set canonical_messages \<longrightarrow> getUserFriendlyError err \<noteq> Str x)"
  using getUserFriendlyError_canonical canonical_messages_nonempty by blast

theorem getUserFriendlyError_no_echo_witness:
  "''connect ETIMEDOUT 10.0.0.7:5432'' \<in> set (raw_fields (Some \<lparr>code = Some ''XX000'',
       error_code = None, message = Some ''connect ETIMEDOUT 10.0.0.7:5432''\<rparr>)) \<and>
   ''connect ETIMEDOUT 10.0.0.7:5432'' \<notin> set canonical_messages \<and>
   getUserFriendlyError (Some \<lparr>code = Some ''XX000'', error_code = None,
       message = Some ''connect ETIMEDOUT 10.0.0.7:5432''\<rparr>)
     \<noteq> Str ''connect ETIMEDOUT 10.0.0.7:5432''"
  using getUserFriendlyError_no_echo [of "Some \<lparr>code = Some ''XX000'', error_code = None,
       message = Some ''connect ETIMEDOUT 10.0.0.7:5432''\<rparr>"]
  by (simp add: raw_fields_def canonical_messages_def authErrorMap_def databaseErrorMap_def
        message_patterns_def)

text \<open>
  The claim as the specification states it fails when the raw message is one of the fixed
  strings: the fallback is returned for the message "An error occurred. Please try again
  later." and equals it.
\<close>

theorem getUserFriendlyError_echo_counterexample:
  "message \<lparr>code = None, error_code = None,
       message = Some ''An error occurred. Please try again later.''\<rparr>
     = Some ''An error occurred. Please try again later.'' \<and>
   getUserFriendlyError (Some \<lparr>code = None, error_code = None,
       message = Some ''An error occurred. Please try again later.''\<rparr>)
     = Str ''An error occurred. Please try again later.''"
  by (simp add: getUserFriendlyError_def or_empty_def or_else_def return_if_truthy_def table_get_def
        authErrorMap_def databaseErrorMap_def Object_prototype_names_def match_message_fallback)

section \<open>Properties of the handler\<close>

lemma valid_requestD:
  assumes "valid_request req c"
  obtains parsed where "method req \<noteq> ''OPTIONS''" "c \<noteq> []" "json req = Inr parsed"
    "parsed \<noteq> JNull" "get_property parsed Claim = Some (JStr c)"
proof -
  from assms obtain parsed where p: "json req = Inr parsed"
    "get_property parsed Claim = Some (JStr c)"
    by (auto simp: valid_request_def split: sum.splits)
  from p(2) have "parsed \<noteq> JNull" by auto
  with assms p that show thesis by (simp add: valid_request_def)
qed

text \<open>A valid request passes the check of the claim and reaches the check of the key.\<close>

lemma try_block_valid:
  assumes "valid_request req c"
  shows "try_block req rt =
     (case LOVABLE_API_KEY rt of
        None \<Rightarrow> (Inl (new_Error rt ''LOVABLE_API_KEY is not configured''), [])
      | Some key \<Rightarrow>
          if key = [] then (Inl (new_Error rt ''LOVABLE_API_KEY is not configured''), [])
          else (and_then (fetch rt (gateway_request key c)) (respond_gateway rt c),
                [gateway_request key c]))"
proof -
  from assms obtain parsed where p: "c \<noteq> []" "json req = Inr parsed" "parsed \<noteq> JNull"
    "get_property parsed Claim = Some (JStr c)"
    by (rule valid_requestD)
  have "read rt (Some parsed) Claim = Inr (Some (JStr c))"
    using p(3,4) by (cases parsed) (simp_all add: read_def)
  then show ?thesis
    using p(1,2) by (simp add: try_block_def and_then_def)
qed

lemma try_block_gateway:
  assumes "valid_request req c" and "gateway_replies rt c response"
  shows "\<exists>key. key \<noteq> [] \<and> LOVABLE_API_KEY rt = Some key \<and>
           try_block req rt = (respond_gateway rt c response, [gateway_request key c])"
  using assms(2) unfolding try_block_valid [OF assms(1)]
  by (auto simp: gateway_replies_def and_then_def split: option.splits)

lemma handler_not_preflight:
  "method req \<noteq> ''OPTIONS'' \<Longrightarrow>
   handler req rt =
     (case try_block req rt of
        (Inr response, calls) \<Rightarrow> (response, calls)
      | (Inl e, calls) \<Rightarrow> (catch_block e, calls))"
  by (simp add: handler_def)

lemma handler_gateway:
  assumes "valid_request req c" and "gateway_replies rt c response"
  shows "fst (handler req rt) =
           (case respond_gateway rt c response of Inr r \<Rightarrow> r | Inl e \<Rightarrow> catch_block e)"
proof -
  from assms(1) have m: "method req \<noteq> ''OPTIONS''" by (simp add: valid_request_def)
  from try_block_gateway [OF assms] obtain key where
    "try_block req rt = (respond_gateway rt c response, [gateway_request key c])" by blast
  then show ?thesis by (simp add: handler_not_preflight [OF m] split: sum.splits)
qed

lemma json_response_eq:
  "json_response entries st =
     \<lparr>status = (case st of Some n \<Rightarrow> n | None \<Rightarrow> 200),
      headers = corsHeaders @ [(''Content-Type'', ''application/json'')],
      body = Some (JSON_stringify_object entries)\<rparr>"
  by (simp add: json_response_def new_Response_def)


lemma catch_block_NonError:
  "catch_block NonError =
     \<lparr>status = 500,
      headers = corsHeaders @ [(''Content-Type'', ''application/json'')],
      body = Some (JObj [(''error'', JStr ''Unknown error'')])\<rparr>"
  by (simp add: catch_block_def json_response_eq JSON_stringify_object_def)

text \<open>With a first tool call whose arguments parse, only the three reads remain.\<close>

lemma respond_verification_arguments:
  assumes "tool_call_arguments rt result verification"
  shows "respond_verification rt claim result =
     and_then (read rt (Some verification) Verdict) (\<lambda>verdict.
     and_then (read rt (Some verification) Confidence) (\<lambda>confidence.
     and_then (read rt (Some verification) Reasoning) (\<lambda>reasoning.
       Inr (json_response
              [(''claim'', Some (JStr claim)), (''verdict'', verdict), (''confidence'', confidence),
               (''reasoning'', reasoning), (''timestamp'', Some (JStr (toISOString (now rt))))]
              None))))"
proof -
  from assms obtain toolCall f where t: "toolCall_of rt result = Inr (Some toolCall)"
    "truthy (Some toolCall)" "get_property toolCall Function = Some f" "f \<noteq> JNull"
    "JSON_parse rt (get_property f Arguments) = Inr verification"
    by (auto simp: tool_call_arguments_def split: sum.splits option.splits)
  from t(2) have n: "toolCall \<noteq> JNull" by auto
  have 1: "read rt (Some toolCall) Function = Inr (Some f)"
    using n t(3) by (cases toolCall) (simp_all add: read_def)
  have 2: "read rt (Some f) Arguments = Inr (get_property f Arguments)"
    using t(4) by (cases f) (simp_all add: read_def)
  show ?thesis
    by (simp add: respond_verification_def t(1,2,5) 1 2 and_then_def)
qed





text \<open>\<open>JSON.stringify\<close> writes a value without an infinity in it as it is.\<close>

lemma JSON_stringify_value_finite: "all_finite v \<Longrightarrow> JSON_stringify_value v = v"
proof (induction v)
  case (JNum n)
  then show ?case by (cases n) simp_all
next
  case (JArr xs)
  then show ?case by (simp add: list_all_iff map_idI)
next
  case (JObj entries)
  have "map_prod id JSON_stringify_value entry = entry" if "entry \<in> set entries" for entry
  proof (cases entry)
    case (Pair k x)
    with that JObj.prems have "all_finite x" by (auto simp: list_all_iff)
    moreover from that Pair have "x \<in> Basic_BNFs.snds entry" by simp
    ultimately have "JSON_stringify_value x = x" using that JObj.IH by blast
    with Pair show ?thesis by simp
  qed
  then show ?case by (simp add: map_idI)
qed simp_all



text \<open>
  Claim C4. For every valid request to which the gateway replies with a status outside 200 to
  299: a status 429 gives the response 429 with the body
  \<open>{error: "Rate limit exceeded. Please try again later."}\<close>, whatever the reply's body is;
  a status 402 gives the response 402 with the body
  \<open>{error: "Payment required. Please add credits to your Lovable AI workspace."}\<close>; every
  other status gives the response 500 with the body
  \<open>{error: "AI gateway error", details: t}\<close>, where \<open>t\<close> is the text of the reply's body.
\<close>

theorem handler_gateway_errors:
  assumes "valid_request req c" and "gateway_replies rt c response" and "\<not> ok response"
  shows "(gw_status response = 429 \<longrightarrow>
            fst (handler req rt) =
              \<lparr>status = 429,
               headers = corsHeaders @ [(''Content-Type'', ''application/json'')],
               body = Some (JObj [(''error'',
                                   JStr ''Rate limit exceeded. Please try again later.'')])\<rparr>) \<and>
         (gw_status response = 402 \<longrightarrow>
            fst (handler req rt) =
              \<lparr>status = 402,
               headers = corsHeaders @ [(''Content-Type'', ''application/json'')],
               body = Some (JObj [(''error'',
                 JStr ''Payment required. Please add credits to your Lovable AI workspace.'')])\<rparr>) \<and>
         (gw_status response \<noteq> 429 \<and> gw_status response \<noteq> 402 \<longrightarrow>
            (\<forall>errorText. gw_text response = Inr errorText \<longrightarrow>
               fst (handler req rt) =
                 \<lparr>status = 500,
                  headers = corsHeaders @ [(''Content-Type'', ''application/json'')],
                  body = Some (JObj [(''error'', JStr ''AI gateway error''),
                                     (''details'', JStr errorText)])\<rparr>))"
  using assms(3)
  by (simp add: handler_gateway [OF assms(1,2)] respond_gateway_def and_then_def json_response_eq
        JSON_stringify_object_def)

theorem handler_gateway_errors_witness:
  "fst (handler (sample_request (JObj [(''claim'', JStr ''The sky is green'')]))
          (sample_runtime ''95'' (Some ''secret'')
             (Inr (sample_reply 429 ''slow down'' (Inl NonError))) (Inl NonError))) =
     \<lparr>status = 429,
      headers = corsHeaders @ [(''Content-Type'', ''application/json'')],
      body = Some (JObj [(''error'', JStr ''Rate limit exceeded. Please try again later.'')])\<rparr> \<and>
   fst (handler (sample_request (JObj [(''claim'', JStr ''The sky is green'')]))
          (sample_runtime ''95'' (Some ''secret'')
             (Inr (sample_reply 402 ''no credits'' (Inl NonError))) (Inl NonError))) =
     \<lparr>status = 402,
      headers = corsHeaders @ [(''Content-Type'', ''application/json'')],
      body = Some (JObj [(''error'',
        JStr ''Payment required. Please add credits to your Lovable AI workspace.'')])\<rparr> \<and>
   fst (handler (sample_request (JObj [(''claim'', JStr ''The sky is green'')]))
          (sample_runtime ''95'' (Some ''secret'')
             (Inr (sample_reply 503 ''upstream connect error'' (Inl NonError))) (Inl NonError))) =
     \<lparr>status = 500,
      headers = corsHeaders @ [(''Content-Type'', ''application/json'')],
      body = Some (JObj [(''error'', JStr ''AI gateway error''),
                         (''details'', JStr ''upstream connect error'')])\<rparr>"
  using
    handler_gateway_errors
      [of "sample_request (JObj [(''claim'', JStr ''The sky is green'')])" "''The sky is green''"
          "sample_runtime ''95'' (Some ''secret'')
             (Inr (sample_reply 429 ''slow down'' (Inl NonError))) (Inl NonError)"
          "sample_reply 429 ''slow down'' (Inl NonError)"]
    handler_gateway_errors
      [of "sample_request (JObj [(''claim'', JStr ''The sky is green'')])" "''The sky is green''"
          "sample_runtime ''95'' (Some ''secret'')
             (Inr (sample_reply 402 ''no credits'' (Inl NonError))) (Inl NonError)"
          "sample_reply 402 ''no credits'' (Inl NonError)"]
    handler_gateway_errors
      [of "sample_request (JObj [(''claim'', JStr ''The sky is green'')])" "''The sky is green''"
          "sample_runtime ''95'' (Some ''secret'')
             (Inr (sample_reply 503 ''upstream connect error'' (Inl NonError))) (Inl NonError)"
          "sample_reply 503 ''upstream connect error'' (Inl NonError)"]
  by (simp add: sample_defs valid_request_def gateway_replies_def ok_def)

text \<open>A reply with status 429 or 402 is never \<open>ok\<close>.\<close>

lemma not_ok_429_402: "gw_status response = 429 \<or> gw_status response = 402 \<Longrightarrow> \<not> ok response"
  by (auto simp: ok_def)



lemma cors_in_json_response: "set corsHeaders \<subseteq> set (headers (json_response entries st))"
  by (auto simp: json_response_eq)

lemma cors_in_respond_verification:
  "respond_verification rt c result = Inr r \<Longrightarrow> set corsHeaders \<subseteq> set (headers r)"
  unfolding respond_verification_def and_then_def
  by (auto split: sum.splits if_splits simp: json_response_eq)

lemma cors_in_respond_gateway:
  "respond_gateway rt c response = Inr r \<Longrightarrow> set corsHeaders \<subseteq> set (headers r)"
  unfolding respond_gateway_def and_then_def
  by (auto split: sum.splits if_splits simp: json_response_eq dest: cors_in_respond_verification)

lemma cors_in_try_block:
  "try_block req rt = (Inr r, calls) \<Longrightarrow> set corsHeaders \<subseteq> set (headers r)"
  unfolding try_block_def
  by (auto split: sum.splits if_splits option.splits json.splits
        simp: json_response_eq and_then_def dest: cors_in_respond_gateway)

text \<open>
  Claim C8. Every response of the handler, on every path, has the two CORS headers
  \<open>Access-Control-Allow-Origin: *\<close> and
  \<open>Access-Control-Allow-Headers: authorization, x-client-info, apikey, content-type\<close>; and a
  request with the method OPTIONS ends there: its response has no body and the CORS headers
  only, and nothing is sent to the gateway.
\<close>

theorem handler_cors:
  "(''Access-Control-Allow-Origin'', ''*'') \<in> set (headers (fst (handler req rt))) \<and>
   (''Access-Control-Allow-Headers'', ''authorization, x-client-info, apikey, content-type'')
      \<in> set (headers (fst (handler req rt))) \<and>
   (method req = ''OPTIONS'' \<longrightarrow>
      handler req rt =
        (\<lparr>status = 200,
          headers = [(''Access-Control-Allow-Origin'', ''*''),
                     (''Access-Control-Allow-Headers'',
                      ''authorization, x-client-info, apikey, content-type'')],
          body = None\<rparr>, []))"
proof -
  have "set corsHeaders \<subseteq> set (headers (fst (handler req rt)))"
  proof (cases "method req = ''OPTIONS''")
    case True
    then show ?thesis by (simp add: handler_def new_Response_def)
  next
    case False
    obtain outcome calls where t: "try_block req rt = (outcome, calls)"
      by (cases "try_block req rt")
    show ?thesis
    proof (cases outcome)
      case (Inl e)
      with t False show ?thesis
        by (simp add: handler_not_preflight catch_block_def cors_in_json_response)
    next
      case (Inr r)
      with t have "set corsHeaders \<subseteq> set (headers r)" by (auto dest: cors_in_try_block)
      with t Inr False show ?thesis by (simp add: handler_not_preflight)
    qed
  qed
  moreover have "method req = ''OPTIONS'' \<Longrightarrow>
      handler req rt = (\<lparr>status = 200, headers = corsHeaders, body = None\<rparr>, [])"
    by (simp add: handler_def new_Response_def)
  ultimately show ?thesis by (auto simp: corsHeaders_def)
qed

theorem handler_cors_witness:
  "handler \<lparr>method = ''OPTIONS'', json = Inl (Error ''Unexpected end of JSON input'' None)\<rparr>
     (sample_runtime ''95'' None (Inl NonError) (Inl NonError)) =
     (\<lparr>status = 200,
       headers = [(''Access-Control-Allow-Origin'', ''*''),
                  (''Access-Control-Allow-Headers'',
                   ''authorization, x-client-info, apikey, content-type'')],
       body = None\<rparr>, [])"
  using handler_cors
    [of "\<lparr>method = ''OPTIONS'', json = Inl (Error ''Unexpected end of JSON input'' None)\<rparr>"
        "sample_runtime ''95'' None (Inl NonError) (Inl NonError)"]
  by simp

text \<open>Serialising the request body changes nothing in it: its numbers are finite.\<close>

lemma request_body_stringify: "JSON_stringify_value (request_body claim) = request_body claim"
  by (simp add: request_body_def verify_claim_parameters_def)

text \<open>
  Claim C9, amended. The handler does not check the confidence the gateway returns: for every
  reply with a status from 200 to 299 whose tool-call arguments parse to a value with a
  confidence \<open>c\<close>, the response has status 200 and carries \<open>c\<close> as \<open>JSON.stringify\<close> writes
  it; that is \<open>c\<close> unchanged whenever \<open>c\<close> has no infinity in it, so for every finite number,
  inside the range from 0 to 100 or outside it. The bound from 0 to 100 appears in the schema
  of the one request sent to the gateway.
\<close>

theorem handler_confidence_passthrough:
  assumes "valid_request req c"
    and "gateway_replies rt c response" and "ok response"
    and "gw_json response = Inr result"
    and "tool_call_arguments rt result verification"
    and "get_property verification Confidence = Some confidence"
  shows "status (fst (handler req rt)) = 200 \<and>
         (\<exists>entries. body (fst (handler req rt)) = Some (JObj entries) \<and>
            map_of entries ''confidence'' = Some (JSON_stringify_value confidence) \<and>
            (all_finite confidence \<longrightarrow> map_of entries ''confidence'' = Some confidence)) \<and>
         (\<exists>key. snd (handler req rt) = [gateway_request key c]) \<and>
         (\<forall>key. at_path (out_body (gateway_request key c))
                   [''tools'', ''0'', ''function'', ''parameters'', ''properties'', ''confidence'']
                 = Some (JObj [(''type'', JStr ''number''), (''minimum'', JNum (Num 0)),
                               (''maximum'', JNum (Num 100)),
                               (''description'', JStr ''Confidence score from 0-100'')]))"
proof -
  from assms(6) have n: "verification \<noteq> JNull" by auto
  have r: "read rt (Some verification) p = Inr (get_property verification p)" for p
    using n by (cases verification) (simp_all add: read_def)
  have "respond_gateway rt c response = respond_verification rt c result"
    using assms(3,4) by (simp add: respond_gateway_def and_then_def)
  also have "\<dots> = Inr (json_response
              [(''claim'', Some (JStr c)), (''verdict'', get_property verification Verdict),
               (''confidence'', Some confidence),
               (''reasoning'', get_property verification Reasoning),
               (''timestamp'', Some (JStr (toISOString (now rt))))] None)"
    by (simp add: respond_verification_arguments [OF assms(5)] r assms(6) and_then_def)
  finally have g: "respond_gateway rt c response = Inr (json_response
              [(''claim'', Some (JStr c)), (''verdict'', get_property verification Verdict),
               (''confidence'', Some confidence),
               (''reasoning'', get_property verification Reasoning),
               (''timestamp'', Some (JStr (toISOString (now rt))))] None)" .
  have 1: "status (fst (handler req rt)) = 200"
    by (simp add: handler_gateway [OF assms(1,2)] g json_response_eq)
  have "\<exists>entries. body (fst (handler req rt)) = Some (JObj entries) \<and>
            map_of entries ''confidence'' = Some (JSON_stringify_value confidence)"
    by (cases "get_property verification Verdict")
       (simp_all add: handler_gateway [OF assms(1,2)] g json_response_eq JSON_stringify_object_def)
  then have 2: "\<exists>entries. body (fst (handler req rt)) = Some (JObj entries) \<and>
            map_of entries ''confidence'' = Some (JSON_stringify_value confidence) \<and>
            (all_finite confidence \<longrightarrow> map_of entries ''confidence'' = Some confidence)"
    by (auto simp: JSON_stringify_value_finite)
  from assms(1) have m: "method req \<noteq> ''OPTIONS''" by (simp add: valid_request_def)
  from try_block_gateway [OF assms(1,2)] obtain key where
    "try_block req rt = (respond_gateway rt c response, [gateway_request key c])" by blast
  then have 3: "\<exists>key. snd (handler req rt) = [gateway_request key c]"
    by (auto simp: handler_not_preflight [OF m] split: sum.splits)
  have 4: "at_path (out_body (gateway_request key c))
                   [''tools'', ''0'', ''function'', ''parameters'', ''properties'', ''confidence'']
                 = Some (JObj [(''type'', JStr ''number''), (''minimum'', JNum (Num 0)),
                               (''maximum'', JNum (Num 100)),
                               (''description'', JStr ''Confidence score from 0-100'')])" for key
    by (simp add: gateway_request_def request_body_def verify_claim_parameters_def)
  from 1 2 3 4 show ?thesis by blast
qed

theorem handler_confidence_passthrough_witness:
  "all_finite (JNum (Num 250)) \<and>
   status (fst (handler (sample_request (JObj [(''claim'', JStr ''The sky is green'')]))
          (sample_runtime ''250'' (Some ''secret'')
             (Inr (sample_reply 200 [] (Inr (sample_result [sample_tool_call ''250'']))))
             (Inr (sample_verification (JNum (Num 250))))))) = 200 \<and>
   (\<exists>entries.
      body (fst (handler (sample_request (JObj [(''claim'', JStr ''The sky is green'')]))
          (sample_runtime ''250'' (Some ''secret'')
             (Inr (sample_reply 200 [] (Inr (sample_result [sample_tool_call ''250'']))))
             (Inr (sample_verification (JNum (Num 250))))))) = Some (JObj entries) \<and>
      map_of entries ''confidence'' = Some (JNum (Num 250)))"
  using handler_confidence_passthrough
    [of "sample_request (JObj [(''claim'', JStr ''The sky is green'')])" "''The sky is green''"
        "sample_runtime ''250'' (Some ''secret'')
           (Inr (sample_reply 200 [] (Inr (sample_result [sample_tool_call ''250'']))))
           (Inr (sample_verification (JNum (Num 250))))"
        "sample_reply 200 [] (Inr (sample_result [sample_tool_call ''250'']))"
        "sample_result [sample_tool_call ''250'']" "sample_verification (JNum (Num 250))"
        "JNum (Num 250)"]
  by (simp add: sample_defs valid_request_def gateway_replies_def ok_def tool_call_arguments_def
        toolCall_of_def read_def read_optional_def and_then_def)

text \<open>
  The claim as the specification states it fails for a confidence that is not finite: the
  arguments \<open>{"verdict":"False","confidence":1e999,...}\<close> parse to the confidence
  \<open>Infinity\<close>, and the response carries \<open>null\<close>.
\<close>

theorem handler_confidence_infinity_counterexample:
  "get_property (sample_verification (JNum PosInfinity)) Confidence = Some (JNum PosInfinity) \<and>
   fst (handler (sample_request (JObj [(''claim'', JStr ''The sky is green'')]))
          (sample_runtime ''1e999'' (Some ''secret'')
             (Inr (sample_reply 200 [] (Inr (sample_result [sample_tool_call ''1e999'']))))
             (Inr (sample_verification (JNum PosInfinity))))) =
     \<lparr>status = 200,
      headers = corsHeaders @ [(''Content-Type'', ''application/json'')],
      body = Some (JObj [(''claim'', JStr ''The sky is green''), (''verdict'', JStr ''False''),
                         (''confidence'', JNull),
                         (''reasoning'', JStr ''The daytime sky is blue.''),
                         (''timestamp'', JStr ''2025-03-09T14:05:07.042Z'')])\<rparr>"
  unfolding handler_def try_block_def respond_gateway_def respond_verification_def
  by (simp add: sample_defs toolCall_of_def read_def read_optional_def and_then_def ok_def
        json_response_eq JSON_stringify_object_def toISOString_def digits2_def digits3_def
        digits4_def digit_char_def)

text \<open>The check of the claim lets through the non-empty strings and nothing else.\<close>

lemma claim_check:
  "(\<not> truthy v \<or> typeof v \<noteq> ''string'') \<longleftrightarrow> \<not> (\<exists>c. v = Some (JStr c) \<and> c \<noteq> [])"
proof (cases v)
  case None
  then show ?thesis by simp
next
  case (Some x)
  then show ?thesis by (cases x) simp_all
qed

text \<open>A body without a claim is answered with 400.\<close>

lemma handler_missing_claim:
  "handler \<lparr>method = ''POST'', json = Inr (JObj [])\<rparr> rt =
     (\<lparr>status = 400,
       headers = corsHeaders @ [(''Content-Type'', ''application/json'')],
       body = Some (JObj [(''error'', JStr ''Missing or invalid 'claim' field'')])\<rparr>, [])"
  by (simp add: handler_def try_block_def and_then_def read_def json_response_eq
        JSON_stringify_object_def)

text \<open>One invocation calls the gateway at most once.\<close>

lemma try_block_calls: "length (snd (try_block req rt)) \<le> 1"
  unfolding try_block_def
  by (simp split: sum.splits option.splits json.splits)

lemma handler_calls: "length (snd (handler req rt)) \<le> 1"
proof (cases "method req = ''OPTIONS''")
  case True
  then show ?thesis by (simp add: handler_def)
next
  case False
  obtain outcome calls where t: "try_block req rt = (outcome, calls)"
    by (cases "try_block req rt")
  with try_block_calls [of req rt] have "length calls \<le> 1" by simp
  with t False show ?thesis by (simp add: handler_not_preflight split: sum.splits)
qed

text \<open>
  Claim C10. For a request other than the preflight whose JSON body has the empty string as its
  claim, the handler responds 400 with the body \<open>{error: "Missing or invalid 'claim' field"}\<close>,
  and nothing is sent to the gateway.
\<close>

theorem handler_empty_claim:
  assumes "method req \<noteq> ''OPTIONS''" and "json req = Inr parsed"
    and "get_property parsed Claim = Some (JStr [])"
  shows "handler req rt =
           (\<lparr>status = 400,
             headers = corsHeaders @ [(''Content-Type'', ''application/json'')],
             body = Some (JObj [(''error'', JStr ''Missing or invalid 'claim' field'')])\<rparr>, [])"
proof -
  from assms(3) have "parsed \<noteq> JNull" by auto
  then have "read rt (Some parsed) Claim = Inr (Some (JStr []))"
    using assms(3) by (cases parsed) (simp_all add: read_def)
  then have "try_block req rt =
     (Inr (json_response [(''error'', Some (JStr ''Missing or invalid 'claim' field''))] (Some 400)), [])"
    by (simp add: try_block_def assms(2) and_then_def)
  then show ?thesis
    by (simp add: handler_not_preflight [OF assms(1)] json_response_eq JSON_stringify_object_def)
qed

theorem handler_empty_claim_witness:
  "handler (sample_request (JObj [(''claim'', JStr [])]))
     (sample_runtime ''95'' (Some ''secret'')
        (Inr (sample_reply 200 [] (Inr (sample_result [sample_tool_call ''95'']))))
        (Inr (sample_verification (JNum (Num 95))))) =
     (\<lparr>status = 400,
       headers = corsHeaders @ [(''Content-Type'', ''application/json'')],
       body = Some (JObj [(''error'', JStr ''Missing or invalid 'claim' field'')])\<rparr>, [])"
  using handler_empty_claim
    [of "sample_request (JObj [(''claim'', JStr [])])" "JObj [(''claim'', JStr [])]"]
  by (simp add: sample_request_def)

end
